theory Spec2Isabelle
  imports Complex_Main
begin

section \<open>Temporal smoothing of face-analysis results\<close>

text \<open>
  The development embeds the utility functions of the face view (\<open>utils.ts\<close>:
  \<open>translateEmotionName\<close>, \<open>pushWithLimit\<close>, \<open>getSmoothedEmotion\<close>,
  \<open>getSmoothedGender\<close>, \<open>getSmoothedAge\<close>, \<open>createHistoryBuffers\<close>) and the
  per-frame body of \<open>detectionLoop\<close> of the hook \<open>useFaceDetection\<close>.

  Conventions of the embedding:
  \<^item> a JavaScript array is a list; \<open>push\<close> appends at the end, \<open>shift\<close> removes the
    head; a function that mutates its array argument returns the new array;
  \<^item> a JavaScript \<open>Map\<close> is an association list in insertion order: \<open>set\<close> on a key
    already present replaces the value in place, \<open>set\<close> on a new key appends, and
    \<open>forEach\<close> visits the entries from left to right;
  \<^item> an optional or nullable value is an \<open>option\<close>, \<open>None\<close> for absent and for
    \<open>null\<close> alike; the score of an emotion candidate, which is stored as it is, keeps
    the two apart;
  \<^item> a value of static type \<open>number\<close> is a \<open>jsnum\<close>: an IEEE-754 double, or
    \<open>undefined\<close> or \<open>null\<close> where the unchecked cast \<open>top.score as number\<close> of the
    detection loop stores one; every arithmetic operation rounds its exact result to
    a double (\<open>fl\<close>);
  \<^item> an array has fewer than \<open>2^32\<close> elements, so a count or a length is an exact
    natural number.
\<close>

subsection \<open>Numbers\<close>

text \<open>
  A slot of static type \<open>number\<close> holds, at run time, an IEEE-754 binary64 value, or
  \<open>undefined\<close> or \<open>null\<close> where an unchecked cast let one through. \<open>Num x\<close> is the
  finite double whose value is the real number \<open>x\<close>. The two zeros are identified: the
  program divides only by counts, lengths and the literal 10, its comparisons take the
  two zeros as equal and both print as \<open>0\<close>, so nothing here tells them apart.
\<close>

datatype jsnum = Num real | PosInf | NegInf | NaN | Undefined | Null

text \<open>\<open>ToNumber\<close> on these values: \<open>undefined\<close> becomes \<open>NaN\<close>, \<open>null\<close> becomes 0.\<close>

fun ToNumber :: "jsnum \<Rightarrow> jsnum" where
  "ToNumber Undefined = NaN"
| "ToNumber Null = Num 0"
| "ToNumber x = x"

text \<open>Rounding a real to the nearest integer, a tie going to the even neighbour.\<close>

definition rne :: "real \<Rightarrow> int" where
  "rne x =
     (let f = \<lfloor>x\<rfloor>; d = x - of_int f
      in if d < 1 / 2 then f
         else if 1 / 2 < d then f + 1
         else if even f then f else f + 1)"

text \<open>
  The exponent \<open>e\<close> of the unit in the last place of a positive real \<open>a\<close>: the one
  with \<open>2^52 \<le> a / 2^e < 2^53\<close>, but not below \<open>-1074\<close> (the subnormal range) and not
  above 971. It is found by halving or doubling.
\<close>

function exp_up :: "real \<Rightarrow> int \<Rightarrow> int" where
  "exp_up a e = (if 2 ^ 53 \<le> a \<and> e < 971 then exp_up (a / 2) (e + 1) else e)"
  by pat_completeness auto
termination
  by (relation "measure (\<lambda>(a, e). nat (971 - e))") auto

function exp_down :: "real \<Rightarrow> int \<Rightarrow> int" where
  "exp_down a e = (if a < 2 ^ 52 \<and> - 1074 < e then exp_down (a * 2) (e - 1) else e)"
  by pat_completeness auto
termination
  by (relation "measure (\<lambda>(a, e). nat (e + 1074))") auto

definition ulp_exponent :: "real \<Rightarrow> int" where
  "ulp_exponent a = (if 2 ^ 53 \<le> a then exp_up a 0 else exp_down a 0)"

definition pow2 :: "int \<Rightarrow> real" where
  "pow2 e = (if 0 \<le> e then 2 ^ nat e else 1 / 2 ^ nat (- e))"

text \<open>
  \<open>fl x\<close> is the double that an arithmetic operation with the exact result \<open>x\<close>
  returns: \<open>x\<close> rounded to 53 significant bits, to nearest and ties to even; an
  infinity once \<open>\<bar>x\<bar>\<close> reaches \<open>2^1024 - 2^970\<close>, halfway between the largest
  double and \<open>2^1024\<close>.
\<close>

definition fl :: "real \<Rightarrow> jsnum" where
  "fl x =
     (if x = 0 then Num 0
      else if 2 ^ 1024 - 2 ^ 970 \<le> \<bar>x\<bar> then (if 0 < x then PosInf else NegInf)
      else let e = ulp_exponent \<bar>x\<bar>
           in Num (sgn x * of_int (rne (\<bar>x\<bar> / pow2 e)) * pow2 e))"

text \<open>The infinity of the sign of \<open>s\<close>; \<open>NaN\<close> for \<open>s = 0\<close>.\<close>

definition signed_inf :: "real \<Rightarrow> jsnum" where
  "signed_inf s = (if 0 < s then PosInf else if s < 0 then NegInf else NaN)"

fun sign_of :: "jsnum \<Rightarrow> real" where
  "sign_of (Num a) = sgn a"
| "sign_of PosInf = 1"
| "sign_of NegInf = - 1"
| "sign_of _ = 0"

text \<open>\<open>a + b\<close> on two numbers, and then with the coercion that \<open>+\<close> applies.\<close>

fun num_add :: "jsnum \<Rightarrow> jsnum \<Rightarrow> jsnum" where
  "num_add (Num a) (Num b) = fl (a + b)"
| "num_add PosInf (Num b) = PosInf"
| "num_add PosInf PosInf = PosInf"
| "num_add NegInf (Num b) = NegInf"
| "num_add NegInf NegInf = NegInf"
| "num_add (Num a) PosInf = PosInf"
| "num_add (Num a) NegInf = NegInf"
| "num_add _ _ = NaN"

definition js_add :: "jsnum \<Rightarrow> jsnum \<Rightarrow> jsnum" where
  "js_add a b = num_add (ToNumber a) (ToNumber b)"

text \<open>\<open>a * b\<close>: the product of an infinity and zero is \<open>NaN\<close>.\<close>

fun num_mul :: "jsnum \<Rightarrow> jsnum \<Rightarrow> jsnum" where
  "num_mul (Num a) (Num b) = fl (a * b)"
| "num_mul NaN _ = NaN"
| "num_mul _ NaN = NaN"
| "num_mul a b = signed_inf (sign_of a * sign_of b)"

definition js_mul :: "jsnum \<Rightarrow> jsnum \<Rightarrow> jsnum" where
  "js_mul a b = num_mul (ToNumber a) (ToNumber b)"

text \<open>
  \<open>a / b\<close>. The program divides only by an entry's \<open>count\<close> (at least 1), by the
  length of a non-empty array and by the literal 10; a zero divisor, which would need
  the sign of the zero, is taken as \<open>+0\<close>.
\<close>

fun num_div :: "jsnum \<Rightarrow> jsnum \<Rightarrow> jsnum" where
  "num_div (Num a) (Num b) = (if b = 0 then signed_inf a else fl (a / b))"
| "num_div (Num a) PosInf = Num 0"
| "num_div (Num a) NegInf = Num 0"
| "num_div PosInf (Num b) = (if b < 0 then NegInf else PosInf)"
| "num_div NegInf (Num b) = (if b < 0 then PosInf else NegInf)"
| "num_div _ _ = NaN"

definition js_div :: "jsnum \<Rightarrow> jsnum \<Rightarrow> jsnum" where
  "js_div a b = num_div (ToNumber a) (ToNumber b)"

text \<open>\<open>a > b\<close>: false as soon as one side is \<open>NaN\<close>.\<close>

fun num_gt :: "jsnum \<Rightarrow> jsnum \<Rightarrow> bool" where
  "num_gt (Num a) (Num b) = (b < a)"
| "num_gt PosInf (Num b) = True"
| "num_gt PosInf NegInf = True"
| "num_gt (Num a) NegInf = True"
| "num_gt _ _ = False"

definition js_gt :: "jsnum \<Rightarrow> jsnum \<Rightarrow> bool" where
  "js_gt a b = num_gt (ToNumber a) (ToNumber b)"

text \<open>
  \<open>Math.round\<close>: the nearest integer, a tie going up, which is \<open>\<lfloor>x + 1/2\<rfloor>\<close>. The
  result is exact: a double of magnitude \<open>2^52\<close> or more is an integer already.
\<close>

fun num_round :: "jsnum \<Rightarrow> jsnum" where
  "num_round (Num x) = Num (of_int \<lfloor>x + 1 / 2\<rfloor>)"
| "num_round PosInf = PosInf"
| "num_round NegInf = NegInf"
| "num_round _ = NaN"

definition Math_round :: "jsnum \<Rightarrow> jsnum" where
  "Math_round a = num_round (ToNumber a)"

subsection \<open>The sliding window: \<open>pushWithLimit\<close>\<close>

text \<open>
  \<^verbatim>\<open>arr.push(item); if (arr.length > limit) arr.shift();\<close>
\<close>

definition pushWithLimit :: "'a list \<Rightarrow> 'a \<Rightarrow> int \<Rightarrow> 'a list" where
  "pushWithLimit arr item limit =
     (let arr1 = arr @ [item]
      in if int (length arr1) > limit then tl arr1 else arr1)"

text \<open>A sequence of calls with one limit, each on the buffer the previous call left.\<close>

definition pushAll :: "int \<Rightarrow> 'a list \<Rightarrow> 'a list \<Rightarrow> 'a list" where
  "pushAll limit arr items = foldl (\<lambda>a x. pushWithLimit a x limit) arr items"

subsection \<open>The display-label table: \<open>translateEmotionName\<close>\<close>

text \<open>
  The localized display strings are Chinese; a string is a list of bytes here, so each
  is given by its UTF-8 encoding.
\<close>

definition zh_neutral :: string where
  "zh_neutral = [CHR 0xE5, CHR 0xB9, CHR 0xB3, CHR 0xE9, CHR 0x9D, CHR 0x99]"

definition zh_happy :: string where
  "zh_happy = [CHR 0xE9, CHR 0xAB, CHR 0x98, CHR 0xE5, CHR 0x85, CHR 0xB4]"

definition zh_sad :: string where
  "zh_sad = [CHR 0xE4, CHR 0xBC, CHR 0xA4, CHR 0xE5, CHR 0xBF, CHR 0x83]"

definition zh_angry :: string where
  "zh_angry = [CHR 0xE7, CHR 0x94, CHR 0x9F, CHR 0xE6, CHR 0xB0, CHR 0x94]"

definition zh_surprise :: string where
  "zh_surprise = [CHR 0xE6, CHR 0x83, CHR 0x8A, CHR 0xE8, CHR 0xAE, CHR 0xB6]"

definition zh_fear :: string where
  "zh_fear = [CHR 0xE6, CHR 0x81, CHR 0x90, CHR 0xE6, CHR 0x83, CHR 0xA7]"

definition zh_disgust :: string where
  "zh_disgust = [CHR 0xE5, CHR 0x8E, CHR 0x8C, CHR 0xE6, CHR 0x81, CHR 0xB6]"

definition zh_contempt :: string where
  "zh_contempt = [CHR 0xE8, CHR 0xBD, CHR 0xBB, CHR 0xE8, CHR 0x94, CHR 0x91]"

text \<open>The own properties of the object literal \<open>map\<close>.\<close>

definition emotion_map :: "(string \<times> string) list" where
  "emotion_map =
     [(''neutral'', zh_neutral), (''happy'', zh_happy), (''sad'', zh_sad),
      (''angry'', zh_angry), (''surprise'', zh_surprise), (''fear'', zh_fear),
      (''disgust'', zh_disgust), (''contempt'', zh_contempt)]"

text \<open>
  \<open>map\<close> is a plain object literal, so the property read \<open>map[name]\<close> falls through
  to \<open>Object.prototype\<close> when \<open>name\<close> is not an own property. These are the
  property names of \<open>Object.prototype\<close>; each holds a function, or for \<open>__proto__\<close>
  the prototype object itself, and every one of them is truthy.
\<close>

definition Object_prototype_keys :: "string list" where
  "Object_prototype_keys =
     [''constructor'', ''__proto__'', ''hasOwnProperty'', ''isPrototypeOf'',
      ''propertyIsEnumerable'', ''toLocaleString'', ''toString'', ''valueOf'',
      ''__defineGetter__'', ''__defineSetter__'', ''__lookupGetter__'',
      ''__lookupSetter__'']"

text \<open>
  What \<open>translateEmotionName\<close> returns at run time: a string, or the member of
  \<open>Object.prototype\<close> stored under the given name (its static type \<open>string\<close> is
  not checked at run time).
\<close>

datatype jsvalue = JSString string | ObjectPrototypeMember string

text \<open>
  \<^verbatim>\<open>return map[name] || name;\<close>
  The empty string is the only falsy string.
\<close>

definition translateEmotionName :: "string \<Rightarrow> jsvalue" where
  "translateEmotionName name =
     (case map_of emotion_map name of
        Some v \<Rightarrow> if v \<noteq> [] then JSString v else JSString name
      | None \<Rightarrow>
          if name \<in> set Object_prototype_keys then ObjectPrototypeMember name
          else JSString name)"

subsection \<open>History entries\<close>

record EmotionData =
  e_name :: string
  e_score :: jsnum

record GenderData =
  g_gender :: string
  g_score :: jsnum

record HistoryBuffers =
  hb_emotion :: "EmotionData list"
  hb_gender :: "GenderData list"
  hb_age :: "jsnum list"

definition createHistoryBuffers :: HistoryBuffers where
  "createHistoryBuffers = \<lparr>hb_emotion = [], hb_gender = [], hb_age = []\<rparr>"

subsection \<open>The counting loop shared by the emotion and the gender aggregator\<close>

text \<open>The value type \<open>{ count: number; total: number }\<close> of the \<open>counter\<close> map.\<close>

record stats =
  st_count :: nat
  st_total :: jsnum

text \<open>\<open>Map.prototype.set\<close> on the insertion-ordered association list.\<close>

fun map_set :: "('k \<times> 'v) list \<Rightarrow> 'k \<Rightarrow> 'v \<Rightarrow> ('k \<times> 'v) list" where
  "map_set [] k v = [(k, v)]"
| "map_set ((k', v') # m) k v =
     (if k' = k then (k', v) # m else (k', v') # map_set m k v)"

text \<open>
  One iteration of the loop, which both aggregators have up to the field names:
  \<^verbatim>\<open>
  const prev = counter.get(e.name) || { count: 0, total: 0 };
  counter.set(e.name, { count: prev.count + 1, total: prev.total + e.score });
  \<close>
  An object is always truthy, so \<open>||\<close> takes the default only for a missing key.
\<close>

definition count_observation ::
  "(string \<times> stats) list \<Rightarrow> string \<times> jsnum \<Rightarrow> (string \<times> stats) list" where
  "count_observation counter obs =
     (let prev = (case map_of counter (fst obs) of
                    Some p \<Rightarrow> p
                  | None \<Rightarrow> \<lparr>st_count = 0, st_total = Num 0\<rparr>)
      in map_set counter (fst obs)
           \<lparr>st_count = st_count prev + 1, st_total = js_add (st_total prev) (snd obs)\<rparr>)"

definition build_counter :: "(string \<times> jsnum) list \<Rightarrow> (string \<times> stats) list" where
  "build_counter observations = foldl count_observation [] observations"

subsection \<open>The emotion aggregator: \<open>getSmoothedEmotion\<close>\<close>

text \<open>
  The body of the \<open>forEach\<close> callback on the triple
  \<open>(bestName, bestCount, bestAvg)\<close>:
  \<^verbatim>\<open>
  const avg = v.total / v.count;
  if (v.count > bestCount || (v.count === bestCount && avg > bestAvg)) {
    bestName = k; bestCount = v.count; bestAvg = avg;
  }
  \<close>
\<close>

definition emotion_best ::
  "string option \<times> int \<times> jsnum \<Rightarrow> string \<times> stats \<Rightarrow> string option \<times> int \<times> jsnum" where
  "emotion_best best entry =
     (case best of (bestName, bestCount, bestAvg) \<Rightarrow>
      case entry of (k, v) \<Rightarrow>
        let avg = js_div (st_total v) (Num (real (st_count v)))
        in if int (st_count v) > bestCount \<or> (int (st_count v) = bestCount \<and> js_gt avg bestAvg)
           then (Some k, int (st_count v), avg)
           else (bestName, bestCount, bestAvg))"

definition getSmoothedEmotion :: "EmotionData list \<Rightarrow> EmotionData option" where
  "getSmoothedEmotion emotionHistory =
     (if length emotionHistory = 0 then None
      else
        let counter = build_counter (map (\<lambda>e. (e_name e, e_score e)) emotionHistory)
        in case foldl emotion_best (None, - 1, Num (- 1)) counter of
             (bestName, bestCount, bestAvg) \<Rightarrow>
               (case bestName of
                  Some n \<Rightarrow> Some \<lparr>e_name = n, e_score = Math_round (js_mul bestAvg (Num 100))\<rparr>
                | None \<Rightarrow> None))"

subsection \<open>The gender aggregator: \<open>getSmoothedGender\<close>\<close>

text \<open>The result object \<open>{ gender: string | null; score: number | null }\<close>.\<close>

record SmoothedGender =
  sg_gender :: "string option"
  sg_score :: "jsnum option"

text \<open>
  \<^verbatim>\<open>if (v.count > bestCount) { bestCount = v.count; bestGender = k; }\<close>
\<close>

definition gender_best :: "string option \<times> int \<Rightarrow> string \<times> stats \<Rightarrow> string option \<times> int" where
  "gender_best best entry =
     (case best of (bestGender, bestCount) \<Rightarrow>
      case entry of (k, v) \<Rightarrow>
        if int (st_count v) > bestCount then (Some k, int (st_count v))
        else (bestGender, bestCount))"

text \<open>
  \<^verbatim>\<open>
  const stats = bestGender ? counter.get(bestGender) : undefined;
  const avg = stats ? Math.round((stats.total / stats.count) * 100) : null;
  return { gender: bestGender, score: avg };
  \<close>
  The test \<open>bestGender ? ...\<close> is a truthiness test: \<open>null\<close> and the empty string
  both take the \<open>undefined\<close> branch.
\<close>

definition getSmoothedGender :: "GenderData list \<Rightarrow> SmoothedGender" where
  "getSmoothedGender genderHistory =
     (if length genderHistory = 0 then \<lparr>sg_gender = None, sg_score = None\<rparr>
      else
        let counter = build_counter (map (\<lambda>g. (g_gender g, g_score g)) genderHistory);
            bestGender = fst (foldl gender_best (None, - 1) counter);
            stats = (case bestGender of
                       None \<Rightarrow> None
                     | Some g \<Rightarrow> if g = [] then None else map_of counter g);
            avg = (case stats of
                     Some s \<Rightarrow>
                       Some (Math_round
                              (js_mul (js_div (st_total s) (Num (real (st_count s)))) (Num 100)))
                   | None \<Rightarrow> None)
        in \<lparr>sg_gender = bestGender, sg_score = avg\<rparr>)"

subsection \<open>The age aggregator: \<open>getSmoothedAge\<close>\<close>

text \<open>
  \<^verbatim>\<open>
  if (ageHistory.length === 0) return null;
  const sum = ageHistory.reduce((a, b) => a + b, 0);
  return Math.round((sum / ageHistory.length) * 10) / 10;
  \<close>
\<close>

definition getSmoothedAge :: "jsnum list \<Rightarrow> jsnum option" where
  "getSmoothedAge ageHistory =
     (if length ageHistory = 0 then None
      else
        let s = foldl js_add (Num 0) ageHistory
        in Some (js_div
                  (Math_round (js_mul (js_div s (Num (real (length ageHistory)))) (Num 10)))
                  (Num 10)))"

subsection \<open>The per-frame step: \<open>detectionLoop\<close>\<close>

text \<open>
  The configuration \<open>SmoothConfig\<close>. The window size is an integer; the threshold is
  a finite double, given by its value.
\<close>

record SmoothConfig =
  windowSize :: int
  minConfidence :: real

text \<open>The literal \<open>0.3\<close> is the double \<open>5404319552844595 / 2^54\<close>.\<close>

definition DEFAULT_CONFIG :: SmoothConfig where
  "DEFAULT_CONFIG = \<lparr>windowSize = 1, minConfidence = 5404319552844595 / 2 ^ 54\<rparr>"

text \<open>
  One element of \<open>firstFace.emotion\<close>. The code reads its score with \<open>?? 0\<close>, so
  the score may be absent (\<open>undefined\<close>), \<open>null\<close> or a number.
\<close>

datatype score_field = Absent | IsNull | Score real

record Candidate =
  c_emotion :: string
  c_score :: score_field

text \<open>
  The fields of a detected face that the step reads. A field that the code tests with
  \<open>typeof ... === 'number'\<close> or defaults with \<open>??\<close> is an \<open>option\<close>, \<open>None\<close>
  standing for every value that fails the test or takes the default. The pose
  angles and the bounding box are handed through to the display record without touching
  the history; they are left out.
\<close>

record Face =
  f_score :: "real option"
  f_faceScore :: "real option"
  f_age :: "real option"
  f_gender :: "string option"
  f_genderScore :: "real option"
  f_emotion :: "Candidate list option"
  f_distance :: "real option"
  f_real :: "real option"
  f_live :: "real option"
  f_size :: "real option"

text \<open>
  \<open>humanRef.current\<close> is a \<open>Human option\<close>; its \<open>result\<close> may be absent, and so may
  the \<open>face\<close> array of a result.
\<close>

datatype Result = Result (r_face: "Face list option")

datatype Human = Human (h_result: "Result option")

text \<open>The display record \<open>FaceData\<close> (without \<open>rotation\<close> and \<open>box\<close>).\<close>

record FaceData =
  fd_confidence :: jsnum
  fd_faceScore :: jsnum
  fd_age :: "jsnum option"
  fd_gender :: "string option"
  fd_genderScore :: "jsnum option"
  fd_distance :: "jsnum option"
  fd_real :: "jsnum option"
  fd_live :: "jsnum option"
  fd_emotion :: "EmotionData option"
  fd_size :: "real option"

text \<open>
  The state the hook keeps between frames: the flag \<open>detectionActiveRef\<close>, the
  buffers \<open>historyBuffersRef\<close> and the React state \<open>faceData\<close>. The status message
  and the canvas are display only and are not modelled.
\<close>

record HookState =
  detectionActive :: bool
  historyBuffers :: HistoryBuffers
  faceData :: "FaceData option"

text \<open>\<open>c.score ?? 0\<close>\<close>

definition scoreOr0 :: "Candidate \<Rightarrow> real" where
  "scoreOr0 c = (case c_score c of Score s \<Rightarrow> s | _ \<Rightarrow> 0)"

text \<open>
  \<open>top.score as number\<close>: the cast is erased at run time, so an absent score is
  stored as \<open>undefined\<close> and a \<open>null\<close> score as \<open>null\<close>.
\<close>

definition asNumber :: "score_field \<Rightarrow> jsnum" where
  "asNumber x = (case x of Score r \<Rightarrow> Num r | Absent \<Rightarrow> Undefined | IsNull \<Rightarrow> Null)"

text \<open>
  \<^verbatim>\<open>firstFace.emotion.slice().sort((a, b) => (b.score ?? 0) - (a.score ?? 0))[0]\<close>
  \<open>Array.prototype.sort\<close> is stable; with this comparator it sorts by descending
  \<open>score ?? 0\<close>, that is by ascending negated score: the difference of two finite
  doubles, once rounded, still has the sign of the exact difference. Element 0 of an
  empty array is \<open>undefined\<close>.
\<close>

definition topEmotion :: "Candidate list \<Rightarrow> Candidate option" where
  "topEmotion cs =
     (case sort_key (\<lambda>c. - scoreOr0 c) cs of [] \<Rightarrow> None | c # _ \<Rightarrow> Some c)"

text \<open>
  \<^verbatim>\<open>
  if (Array.isArray(firstFace.emotion)) {
    const top = ...;
    if (top && (top.score ?? 0) >= config.minConfidence) {
      pushWithLimit(historyBuffersRef.current.emotion,
        { name: top.emotion, score: top.score as number }, config.windowSize);
    }
  }
  \<close>
\<close>

definition updateEmotion :: "SmoothConfig \<Rightarrow> Face \<Rightarrow> EmotionData list \<Rightarrow> EmotionData list" where
  "updateEmotion config firstFace buf =
     (case f_emotion firstFace of
        None \<Rightarrow> buf
      | Some cs \<Rightarrow>
          (case topEmotion cs of
             None \<Rightarrow> buf
           | Some top_c \<Rightarrow>
               if scoreOr0 top_c \<ge> minConfidence config
               then pushWithLimit buf
                      \<lparr>e_name = c_emotion top_c, e_score = asNumber (c_score top_c)\<rparr>
                      (windowSize config)
               else buf))"

text \<open>
  \<^verbatim>\<open>
  if (firstFace.gender && typeof firstFace.genderScore === 'number'
      && firstFace.genderScore >= config.minConfidence) {
    pushWithLimit(historyBuffersRef.current.gender,
      { gender: firstFace.gender, score: firstFace.genderScore }, config.windowSize);
  }
  \<close>
\<close>

definition updateGender :: "SmoothConfig \<Rightarrow> Face \<Rightarrow> GenderData list \<Rightarrow> GenderData list" where
  "updateGender config firstFace buf =
     (case f_gender firstFace of
        None \<Rightarrow> buf
      | Some g \<Rightarrow>
          (case f_genderScore firstFace of
             None \<Rightarrow> buf
           | Some s \<Rightarrow>
               if g \<noteq> [] \<and> s \<ge> minConfidence config
               then pushWithLimit buf \<lparr>g_gender = g, g_score = Num s\<rparr> (windowSize config)
               else buf))"

text \<open>
  \<^verbatim>\<open>
  if (typeof firstFace.age === 'number') {
    pushWithLimit(historyBuffersRef.current.age, firstFace.age, config.windowSize);
  }
  \<close>
\<close>

definition updateAge :: "SmoothConfig \<Rightarrow> Face \<Rightarrow> jsnum list \<Rightarrow> jsnum list" where
  "updateAge config firstFace buf =
     (case f_age firstFace of
        None \<Rightarrow> buf
      | Some a \<Rightarrow> pushWithLimit buf (Num a) (windowSize config))"

definition updateBuffers :: "SmoothConfig \<Rightarrow> Face \<Rightarrow> HistoryBuffers \<Rightarrow> HistoryBuffers" where
  "updateBuffers config firstFace hb =
     \<lparr>hb_emotion = updateEmotion config firstFace (hb_emotion hb),
      hb_gender = updateGender config firstFace (hb_gender hb),
      hb_age = updateAge config firstFace (hb_age hb)\<rparr>"

text \<open>\<open>Math.round(x * 100)\<close> for a finite double \<open>x\<close>.\<close>

definition percent :: "real \<Rightarrow> jsnum" where
  "percent x = Math_round (js_mul (Num x) (Num 100))"

text \<open>The argument of \<open>setFaceData\<close> in the branch with a face.\<close>

definition displayRecord :: "Face \<Rightarrow> HistoryBuffers \<Rightarrow> FaceData" where
  "displayRecord firstFace hb =
     (let smoothedEmotion = getSmoothedEmotion (hb_emotion hb);
          smoothedGender = getSmoothedGender (hb_gender hb);
          smoothedAge = getSmoothedAge (hb_age hb)
      in \<lparr>fd_confidence = percent (case f_score firstFace of Some x \<Rightarrow> x | None \<Rightarrow> 0),
          fd_faceScore = percent (case f_faceScore firstFace of Some x \<Rightarrow> x | None \<Rightarrow> 0),
          fd_age = smoothedAge,
          fd_gender = sg_gender smoothedGender,
          fd_genderScore = sg_score smoothedGender,
          fd_distance = map_option percent (f_distance firstFace),
          fd_real = map_option percent (f_real firstFace),
          fd_live = map_option percent (f_live firstFace),
          fd_emotion = smoothedEmotion,
          fd_size = f_size firstFace\<rparr>)"

text \<open>
  One call of \<open>detectionLoop\<close>, up to the request for the next animation frame:
  \<^verbatim>\<open>
  if (!detectionActiveRef.current || !humanRef.current) return;
  const result = humanRef.current.result;
  if (result && result.face && result.face.length > 0) {
    const firstFace = result.face[0];
    ... the three pushes ...
    setFaceData({ ... });
  } else {
    setFaceData(null);
  }
  \<close>
\<close>

definition detectionLoop :: "SmoothConfig \<Rightarrow> Human option \<Rightarrow> HookState \<Rightarrow> HookState" where
  "detectionLoop config human st =
     (if \<not> detectionActive st then st
      else case human of
        None \<Rightarrow> st
      | Some h \<Rightarrow>
          (case h_result h of
             Some (Result (Some (firstFace # others))) \<Rightarrow>
               (let hb = updateBuffers config firstFace (historyBuffers st)
                in st\<lparr>historyBuffers := hb, faceData := Some (displayRecord firstFace hb)\<rparr>)
           | _ \<Rightarrow> st\<lparr>faceData := None\<rparr>))"

subsection \<open>Reference notions for the aggregators\<close>

text \<open>
  An observation with a numeric confidence is a pair of a label and the value of a
  finite double. The notions below are those of the specification: how often a label
  occurs, the sum and the average of its confidences as real numbers, and the position
  of its first occurrence.
\<close>

definition occurrences :: "string \<Rightarrow> (string \<times> real) list \<Rightarrow> nat" where
  "occurrences l obs = length (filter (\<lambda>ob. fst ob = l) obs)"

definition confidence_sum :: "string \<Rightarrow> (string \<times> real) list \<Rightarrow> real" where
  "confidence_sum l obs = sum_list (map snd (filter (\<lambda>ob. fst ob = l) obs))"

definition average_confidence :: "string \<Rightarrow> (string \<times> real) list \<Rightarrow> real" where
  "average_confidence l obs = confidence_sum l obs / real (occurrences l obs)"

definition first_index :: "string \<Rightarrow> (string \<times> real) list \<Rightarrow> nat" where
  "first_index l obs = length (takeWhile (\<lambda>ob. fst ob \<noteq> l) obs)"

definition labels_in_order :: "(string \<times> real) list \<Rightarrow> string list" where
  "labels_in_order obs = rev (remdups (rev (map fst obs)))"

text \<open>
  The same sum and average in double arithmetic: the confidences of a label added one
  by one to 0 in input order, each addition rounded, and the total then divided by
  the count, the quotient rounded.
\<close>

definition double_sum :: "string \<Rightarrow> (string \<times> real) list \<Rightarrow> jsnum" where
  "double_sum l obs = foldl js_add (Num 0) (map (\<lambda>ob. Num (snd ob)) (filter (\<lambda>ob. fst ob = l) obs))"

definition double_average :: "string \<Rightarrow> (string \<times> real) list \<Rightarrow> jsnum" where
  "double_average l obs = js_div (double_sum l obs) (Num (real (occurrences l obs)))"

definition label_stats :: "(string \<times> real) list \<Rightarrow> string \<Rightarrow> stats" where
  "label_stats obs l = \<lparr>st_count = occurrences l obs, st_total = double_sum l obs\<rparr>"

text \<open>The values that order under \<open>>\<close>: the finite doubles and the two infinities.\<close>

fun comparable :: "jsnum \<Rightarrow> bool" where
  "comparable (Num x) = True"
| "comparable PosInf = True"
| "comparable NegInf = True"
| "comparable _ = False"



text \<open>The history entries that carry such observations.\<close>

definition emotion_entry :: "string \<times> real \<Rightarrow> EmotionData" where
  "emotion_entry ob = \<lparr>e_name = fst ob, e_score = Num (snd ob)\<rparr>"

definition gender_entry :: "string \<times> real \<Rightarrow> GenderData" where
  "gender_entry ob = \<lparr>g_gender = fst ob, g_score = Num (snd ob)\<rparr>"

subsection \<open>Properties of the sliding window\<close>

lemma pushWithLimit_length:
  "length (pushWithLimit arr item limit) =
     (if int (length arr) + 1 > limit then length arr else length arr + 1)"
  by (simp add: pushWithLimit_def Let_def)

lemma pushWithLimit_full:
  "1 \<le> limit \<Longrightarrow> int (length arr) = limit \<Longrightarrow>
     pushWithLimit arr item limit = tl arr @ [item]"
  by (cases arr) (auto simp: pushWithLimit_def Let_def)

lemma pushWithLimit_room:
  "int (length arr) < limit \<Longrightarrow> pushWithLimit arr item limit = arr @ [item]"
  by (simp add: pushWithLimit_def Let_def)

lemma pushAll_snoc:
  "pushAll limit arr (items @ [x]) = pushWithLimit (pushAll limit arr items) x limit"
  by (simp add: pushAll_def)

lemma pushAll_last:
  assumes "1 \<le> limit"
  shows "pushAll limit [] items = drop (length items - nat limit) items"
proof (induction items rule: rev_induct)
  case Nil
  show ?case by (simp add: pushAll_def)
next
  case (snoc x xs)
  let ?b = "drop (length xs - nat limit) xs"
  show ?case
  proof (cases "length xs < nat limit")
    case True
    then have b: "?b = xs" by simp
    from True have "int (length xs) < limit" by linarith
    then have "pushWithLimit xs x limit = xs @ [x]" by (rule pushWithLimit_room)
    moreover from True have "length (xs @ [x]) - nat limit = 0" by simp
    ultimately show ?thesis using snoc.IH b by (simp add: pushAll_snoc)
  next
    case False
    then have ge: "nat limit \<le> length xs" by simp
    then have len: "length ?b = nat limit" by simp
    with assms have "int (length ?b) = limit" by simp
    then have "pushWithLimit ?b x limit = tl ?b @ [x]"
      using assms by (simp add: pushWithLimit_full)
    moreover have "tl ?b = drop (Suc (length xs - nat limit)) xs"
      by (simp add: drop_Suc tl_drop)
    moreover from ge have "Suc (length xs) - nat limit = Suc (length xs - nat limit)"
      by simp
    moreover from ge have "Suc (length xs - nat limit) \<le> length xs"
      using assms by linarith
    ultimately show ?thesis using snoc.IH by (simp add: pushAll_snoc)
  qed
qed

lemma pushAll_nonpositive: "limit \<le> 0 \<Longrightarrow> pushAll limit [] items = []"
proof (induction items rule: rev_induct)
  case Nil
  show ?case by (simp add: pushAll_def)
next
  case (snoc x xs)
  then show ?case by (simp add: pushAll_snoc pushWithLimit_def)
qed

text \<open>
  Claim C10. A single call of \<open>pushWithLimit\<close>, for every buffer, item and integer
  limit: the buffer keeps its length when the old length plus one exceeds the limit
  (the head of the extended buffer, and only the head, is removed) and grows by one
  otherwise. With a limit of zero or less, a buffer that starts empty is empty after
  every call; a buffer already longer than the limit loses exactly its oldest element
  and is not shorter than before.
\<close>

theorem pushWithLimit_single_call:
  "pushWithLimit arr item limit =
     (if int (length arr) + 1 > limit then tl (arr @ [item]) else arr @ [item])
   \<and> length (pushWithLimit arr item limit) =
     (if int (length arr) + 1 > limit then length arr else length arr + 1)
   \<and> (limit \<le> 0 \<longrightarrow> pushAll limit [] items = [])
   \<and> (int (length arr) > limit \<longrightarrow>
        pushWithLimit arr item limit = tl (arr @ [item])
        \<and> length (pushWithLimit arr item limit) = length arr)"
  by (simp add: pushWithLimit_length pushAll_nonpositive) (simp add: pushWithLimit_def)

theorem pushWithLimit_single_call_witness:
  "pushWithLimit [1, 2, 3 :: nat] 4 2 = [2, 3, 4]
   \<and> length (pushWithLimit [1, 2, 3 :: nat] 4 2) = 3
   \<and> (0 :: int) \<le> 0 \<and> pushAll 0 [] [7, 8, 9 :: nat] = []
   \<and> int (length [1, 2, 3 :: nat]) > 2"
  using pushWithLimit_single_call [of "[1, 2, 3 :: nat]" 4 2 "[] :: nat list"]
    pushWithLimit_single_call [of "[] :: nat list" 0 0 "[7, 8, 9 :: nat]"]
  by (simp add: pushWithLimit_def)

text \<open>
  Claim C1. For every limit \<open>N \<ge> 1\<close> and every sequence of pushes with that limit
  on a buffer that starts empty: after every call (that is, after every prefix of the
  sequence) the buffer has at most \<open>N\<close> elements, and after \<open>N + k\<close> pushes it holds
  exactly the last \<open>N\<close> pushed items, in the order they were pushed.
\<close>

theorem pushAll_window:
  assumes "1 \<le> N"
  shows "(\<forall>n. length (pushAll N [] (take n items)) \<le> nat N)
         \<and> (\<forall>k. length items = nat N + k \<longrightarrow>
               pushAll N [] items = drop k items \<and> length (pushAll N [] items) = nat N)"
proof (intro conjI allI impI)
  fix n
  show "length (pushAll N [] (take n items)) \<le> nat N"
    by (simp add: pushAll_last [OF assms])
next
  fix k
  assume "length items = nat N + k"
  then show "pushAll N [] items = drop k items"
    by (simp add: pushAll_last [OF assms])
next
  fix k
  assume "length items = nat N + k"
  then show "length (pushAll N [] items) = nat N"
    by (simp add: pushAll_last [OF assms])
qed

theorem pushAll_window_witness:
  "(1 :: int) \<le> 2
   \<and> length (pushAll 2 [] (take 1 [10, 20, 30, 40 :: nat])) \<le> nat 2
   \<and> length [10, 20, 30, 40 :: nat] = nat 2 + 2
   \<and> pushAll 2 [] [10, 20, 30, 40 :: nat] = [30, 40]"
proof -
  have h: "(1 :: int) \<le> 2" by simp
  from pushAll_window [OF h, of "[10, 20, 30, 40 :: nat]"] show ?thesis
    by (simp add: pushAll_def pushWithLimit_def)
qed

subsection \<open>Empty histories\<close>

text \<open>
  Claim C7. On an empty history each aggregator returns its "no result" value:
  \<open>getSmoothedEmotion([])\<close> is \<open>null\<close>, \<open>getSmoothedGender([])\<close> is
  \<open>{gender: null, score: null}\<close> and \<open>getSmoothedAge([])\<close> is \<open>null\<close>. The three
  functions are total, so there is no error to return.
\<close>

theorem aggregators_empty:
  "getSmoothedEmotion [] = None
   \<and> getSmoothedGender [] = \<lparr>sg_gender = None, sg_score = None\<rparr>
   \<and> getSmoothedAge [] = None"
  by (simp add: getSmoothedEmotion_def getSmoothedGender_def getSmoothedAge_def)

subsection \<open>Double arithmetic\<close>

text \<open>
  The result of an operation on finite doubles is a finite double or an infinity, never
  \<open>NaN\<close>, as long as no divisor is zero; on these values \<open>>\<close> is a strict linear
  order.
\<close>

lemma comparable_fl: "comparable (fl x)"
  by (simp add: fl_def Let_def)

lemma comparable_js_add: "comparable s \<Longrightarrow> comparable (js_add s (Num x))"
  by (cases s) (simp_all add: js_add_def comparable_fl)

lemma comparable_js_div: "comparable s \<Longrightarrow> 0 < c \<Longrightarrow> comparable (js_div s (Num c))"
  by (cases s) (simp_all add: js_div_def comparable_fl)

lemma comparable_foldl_js_add:
  "comparable s \<Longrightarrow> comparable (foldl js_add s (map (\<lambda>ob. Num (f ob)) xs))"
  by (induction xs arbitrary: s) (simp_all add: comparable_js_add)

lemma comparable_double_sum: "comparable (double_sum l obs)"
  by (simp add: double_sum_def comparable_foldl_js_add)

lemma js_gt_trans:
  "comparable a \<Longrightarrow> comparable b \<Longrightarrow> comparable c \<Longrightarrow> js_gt a b \<Longrightarrow> js_gt b c \<Longrightarrow> js_gt a c"
  by (cases a; cases b; cases c) (simp_all add: js_gt_def)

lemma js_gt_le_trans:
  "comparable a \<Longrightarrow> comparable b \<Longrightarrow> comparable c \<Longrightarrow> js_gt a b \<Longrightarrow> \<not> js_gt c b \<Longrightarrow> js_gt a c"
  by (cases a; cases b; cases c) (simp_all add: js_gt_def)

lemma js_gt_cases:
  "comparable a \<Longrightarrow> comparable b \<Longrightarrow> js_gt a b \<or> a = b \<or> js_gt b a"
  by (cases a; cases b) (auto simp: js_gt_def)

lemma js_gt_irrefl: "\<not> js_gt a a"
  by (cases a) (simp_all add: js_gt_def)

text \<open>The equations that evaluate double arithmetic on numerals.\<close>

lemmas double_eval =
  js_add_def js_mul_def js_div_def js_gt_def Math_round_def fl_def ulp_exponent_def
  exp_down.simps exp_up.simps rne_def pow2_def

subsection \<open>The age aggregator\<close>




subsection \<open>The emotion and gender aggregators\<close>

lemma labels_in_order_snoc:
  "labels_in_order (obs @ [ob]) =
     (if fst ob \<in> fst ` set obs then labels_in_order obs else labels_in_order obs @ [fst ob])"
  by (simp add: labels_in_order_def)

lemma set_labels_in_order: "set (labels_in_order obs) = fst ` set obs"
  by (simp add: labels_in_order_def)

lemma distinct_labels_in_order: "distinct (labels_in_order obs)"
  by (simp add: labels_in_order_def)

lemma labels_in_order_nonempty: "obs \<noteq> [] \<Longrightarrow> labels_in_order obs \<noteq> []"
  using set_labels_in_order [of obs] by (cases obs) auto

lemma map_of_tabulate:
  "map_of (map (\<lambda>l. (l, g l)) ls) k = (if k \<in> set ls then Some (g k) else None)"
  by (induction ls) auto

lemma map_set_new:
  "k \<notin> set ls \<Longrightarrow> map_set (map (\<lambda>l. (l, g l)) ls) k v = map (\<lambda>l. (l, g l)) ls @ [(k, v)]"
  by (induction ls) auto

lemma map_set_old:
  "k \<in> set ls \<Longrightarrow> distinct ls \<Longrightarrow>
   map_set (map (\<lambda>l. (l, g l)) ls) k v = map (\<lambda>l. (l, (g(k := v)) l)) ls"
  by (induction ls) auto

lemma label_stats_snoc:
  "label_stats (obs @ [ob]) l =
     (if l = fst ob
      then \<lparr>st_count = occurrences l obs + 1,
            st_total = js_add (double_sum l obs) (Num (snd ob))\<rparr>
      else label_stats obs l)"
  by (simp add: label_stats_def occurrences_def double_sum_def)

lemma label_stats_fresh:
  "l \<notin> fst ` set obs \<Longrightarrow> occurrences l obs = 0 \<and> double_sum l obs = Num 0"
proof -
  assume "l \<notin> fst ` set obs"
  then have "filter (\<lambda>ob. fst ob = l) obs = []"
    by (auto simp: filter_empty_conv)
  then show ?thesis by (simp add: occurrences_def double_sum_def)
qed

lemma occurrences_pos: "l \<in> fst ` set obs \<Longrightarrow> 0 < occurrences l obs"
  by (auto simp: occurrences_def filter_empty_conv)

lemma comparable_double_average:
  "l \<in> fst ` set obs \<Longrightarrow> comparable (double_average l obs)"
  by (simp add: double_average_def comparable_js_div comparable_double_sum occurrences_pos)

lemma build_counter_tabulate:
  "build_counter (map (\<lambda>ob. (fst ob, Num (snd ob))) obs) =
     map (\<lambda>l. (l, label_stats obs l)) (labels_in_order obs)"
proof (induction obs rule: rev_induct)
  case Nil
  show ?case by (simp add: build_counter_def labels_in_order_def)
next
  case (snoc ob obs)
  let ?k = "fst ob"
  let ?tab = "map (\<lambda>l. (l, label_stats obs l)) (labels_in_order obs)"
  let ?new = "\<lparr>st_count = occurrences ?k obs + 1,
               st_total = js_add (double_sum ?k obs) (Num (snd ob))\<rparr>"
  have step: "build_counter (map (\<lambda>ob. (fst ob, Num (snd ob))) (obs @ [ob])) =
      count_observation ?tab (?k, Num (snd ob))"
    using snoc.IH by (simp add: build_counter_def)
  show ?case
  proof (cases "?k \<in> fst ` set obs")
    case True
    then have mem: "?k \<in> set (labels_in_order obs)" by (simp add: set_labels_in_order)
    have "count_observation ?tab (?k, Num (snd ob)) = map_set ?tab ?k ?new"
      using mem by (simp add: count_observation_def map_of_tabulate label_stats_def)
    also have "\<dots> = map (\<lambda>l. (l, ((label_stats obs)(?k := ?new)) l)) (labels_in_order obs)"
      using mem by (simp add: map_set_old distinct_labels_in_order)
    also have "\<dots> = map (\<lambda>l. (l, label_stats (obs @ [ob]) l)) (labels_in_order obs)"
      by (simp add: label_stats_snoc)
    finally show ?thesis using True step by (simp add: labels_in_order_snoc)
  next
    case False
    then have nmem: "?k \<notin> set (labels_in_order obs)" by (simp add: set_labels_in_order)
    from False have z: "occurrences ?k obs = 0" "double_sum ?k obs = Num 0"
      using label_stats_fresh by blast+
    have "count_observation ?tab (?k, Num (snd ob)) = map_set ?tab ?k ?new"
      using nmem z by (simp add: count_observation_def map_of_tabulate)
    also have "\<dots> = ?tab @ [(?k, ?new)]"
      using nmem by (simp add: map_set_new)
    also have "\<dots> = map (\<lambda>l. (l, label_stats (obs @ [ob]) l)) (labels_in_order obs)
                      @ [(?k, label_stats (obs @ [ob]) ?k)]"
      using nmem by (simp add: label_stats_snoc)
    finally show ?thesis using False step by (simp add: labels_in_order_snoc)
  qed
qed

lemma emotion_best_fold:
  fixes c :: "string \<Rightarrow> nat" and T :: "string \<Rightarrow> jsnum"
  defines "a \<equiv> \<lambda>l. js_div (T l) (Num (real (c l)))"
  assumes "ls \<noteq> []" and "\<forall>l\<in>set ls. comparable (a l)"
  shows "\<exists>pre w post. ls = pre @ w # post
     \<and> foldl emotion_best (None, - 1, Num (- 1))
          (map (\<lambda>l. (l, \<lparr>st_count = c l, st_total = T l\<rparr>)) ls) =
        (Some w, int (c w), a w)
     \<and> (\<forall>l\<in>set pre. c l < c w \<or> (c l = c w \<and> js_gt (a w) (a l)))
     \<and> (\<forall>l\<in>set post. c l < c w \<or> (c l = c w \<and> \<not> js_gt (a l) (a w)))"
  using assms(2,3)
proof (induction ls rule: rev_induct)
  case Nil
  then show ?case by simp
next
  case (snoc x xs)
  let ?E = "\<lambda>l. (l, \<lparr>st_count = c l, st_total = T l\<rparr>)"
  let ?run = "\<lambda>ls. foldl emotion_best (None, - 1, Num (- 1)) (map ?E ls)"
  from snoc.prems(2) have cx: "comparable (a x)" and cxs: "\<forall>l\<in>set xs. comparable (a l)"
    by simp_all
  show ?case
  proof (cases "xs = []")
    case True
    then have "?run (xs @ [x]) = (Some x, int (c x), a x)"
      by (simp add: emotion_best_def a_def)
    with True have "xs @ [x] = [] @ x # [] \<and> ?run (xs @ [x]) = (Some x, int (c x), a x)
        \<and> (\<forall>l\<in>set []. c l < c x \<or> (c l = c x \<and> js_gt (a x) (a l)))
        \<and> (\<forall>l\<in>set []. c l < c x \<or> (c l = c x \<and> \<not> js_gt (a l) (a x)))"
      by simp
    then show ?thesis by blast
  next
    case False
    from snoc.IH [OF False cxs] obtain pre w post where
      d: "xs = pre @ w # post" and r: "?run xs = (Some w, int (c w), a w)"
      and pre: "\<forall>l\<in>set pre. c l < c w \<or> (c l = c w \<and> js_gt (a w) (a l))"
      and post: "\<forall>l\<in>set post. c l < c w \<or> (c l = c w \<and> \<not> js_gt (a l) (a w))"
      by blast
    from d cxs have cw: "comparable (a w)" by simp
    have step: "?run (xs @ [x]) = emotion_best (Some w, int (c w), a w) (?E x)"
      using r by simp
    show ?thesis
    proof (cases "c w < c x \<or> (c x = c w \<and> js_gt (a x) (a w))")
      case True
      then have res: "?run (xs @ [x]) = (Some x, int (c x), a x)"
        unfolding step by (auto simp: emotion_best_def a_def Let_def)
      have "\<forall>l\<in>set xs. c l < c x \<or> (c l = c x \<and> js_gt (a x) (a l))"
      proof
        fix l assume l: "l \<in> set xs"
        with cxs have cl: "comparable (a l)" by simp
        from l consider "l \<in> set pre" | "l = w" | "l \<in> set post" using d by auto
        then show "c l < c x \<or> (c l = c x \<and> js_gt (a x) (a l))"
        proof cases
          case 1
          with pre have "c l < c w \<or> (c l = c w \<and> js_gt (a w) (a l))" by blast
          with True show ?thesis
            using js_gt_trans [OF cx cw cl] by auto
        next
          case 2
          with True show ?thesis by auto
        next
          case 3
          with post have "c l < c w \<or> (c l = c w \<and> \<not> js_gt (a l) (a w))" by blast
          with True show ?thesis
            using js_gt_le_trans [OF cx cw cl] by auto
        qed
      qed
      with res have "xs @ [x] = xs @ x # [] \<and> ?run (xs @ [x]) = (Some x, int (c x), a x)
        \<and> (\<forall>l\<in>set xs. c l < c x \<or> (c l = c x \<and> js_gt (a x) (a l)))
        \<and> (\<forall>l\<in>set []. c l < c x \<or> (c l = c x \<and> \<not> js_gt (a l) (a x)))"
        by simp
      then show ?thesis by blast
    next
      case False
      then have res: "?run (xs @ [x]) = (Some w, int (c w), a w)"
        unfolding step by (auto simp: emotion_best_def a_def Let_def)
      from False have "c x < c w \<or> (c x = c w \<and> \<not> js_gt (a x) (a w))" by auto
      with post have "\<forall>l\<in>set (post @ [x]). c l < c w \<or> (c l = c w \<and> \<not> js_gt (a l) (a w))"
        by auto
      with res d pre have "xs @ [x] = pre @ w # (post @ [x])
        \<and> ?run (xs @ [x]) = (Some w, int (c w), a w)
        \<and> (\<forall>l\<in>set pre. c l < c w \<or> (c l = c w \<and> js_gt (a w) (a l)))
        \<and> (\<forall>l\<in>set (post @ [x]). c l < c w \<or> (c l = c w \<and> \<not> js_gt (a l) (a w)))"
        by simp
      then show ?thesis by blast
    qed
  qed
qed

lemma gender_best_fold:
  fixes c :: "string \<Rightarrow> nat"
  assumes "ls \<noteq> []"
  shows "\<exists>pre w post. ls = pre @ w # post
     \<and> foldl gender_best (None, - 1)
          (map (\<lambda>l. (l, \<lparr>st_count = c l, st_total = tt l\<rparr>)) ls) = (Some w, int (c w))
     \<and> (\<forall>l\<in>set pre. c l < c w)
     \<and> (\<forall>l\<in>set post. c l \<le> c w)"
  using assms
proof (induction ls rule: rev_induct)
  case Nil
  then show ?case by simp
next
  case (snoc x xs)
  let ?E = "\<lambda>l. (l, \<lparr>st_count = c l, st_total = tt l\<rparr>)"
  let ?run = "\<lambda>ls. foldl gender_best (None, - 1) (map ?E ls)"
  show ?case
  proof (cases "xs = []")
    case True
    then have "?run (xs @ [x]) = (Some x, int (c x))"
      by (simp add: gender_best_def)
    with True have "xs @ [x] = [] @ x # [] \<and> ?run (xs @ [x]) = (Some x, int (c x))
        \<and> (\<forall>l\<in>set []. c l < c x) \<and> (\<forall>l\<in>set []. c l \<le> c x)"
      by simp
    then show ?thesis by blast
  next
    case False
    from snoc.IH [OF False] obtain pre w post where
      d: "xs = pre @ w # post" and r: "?run xs = (Some w, int (c w))"
      and pre: "\<forall>l\<in>set pre. c l < c w" and post: "\<forall>l\<in>set post. c l \<le> c w"
      by blast
    have step: "?run (xs @ [x]) = gender_best (Some w, int (c w)) (?E x)"
      using r by simp
    show ?thesis
    proof (cases "c w < c x")
      case True
      then have res: "?run (xs @ [x]) = (Some x, int (c x))"
        unfolding step by (simp add: gender_best_def)
      have "\<forall>l\<in>set xs. c l < c x"
        using d pre post True by fastforce
      with res have "xs @ [x] = xs @ x # [] \<and> ?run (xs @ [x]) = (Some x, int (c x))
        \<and> (\<forall>l\<in>set xs. c l < c x) \<and> (\<forall>l\<in>set []. c l \<le> c x)"
        by simp
      then show ?thesis by blast
    next
      case False
      then have res: "?run (xs @ [x]) = (Some w, int (c w))"
        unfolding step by (simp add: gender_best_def)
      from False post have "\<forall>l\<in>set (post @ [x]). c l \<le> c w" by auto
      with res d pre have "xs @ [x] = pre @ w # (post @ [x])
        \<and> ?run (xs @ [x]) = (Some w, int (c w))
        \<and> (\<forall>l\<in>set pre. c l < c w) \<and> (\<forall>l\<in>set (post @ [x]). c l \<le> c w)"
        by simp
      then show ?thesis by blast
    qed
  qed
qed

lemma first_index_snoc:
  "first_index l (obs @ [ob]) =
     (if l \<in> fst ` set obs then first_index l obs
      else if fst ob = l then length obs else length obs + 1)"
  by (auto simp: first_index_def takeWhile_append)

lemma first_index_less: "l \<in> fst ` set obs \<Longrightarrow> first_index l obs < length obs"
  by (induction obs) (auto simp: first_index_def)

lemma labels_in_order_first_index:
  "labels_in_order obs = pre @ w # post \<Longrightarrow> l \<in> set post \<Longrightarrow>
   first_index w obs < first_index l obs"
proof (induction obs arbitrary: post rule: rev_induct)
  case Nil
  then show ?case by (simp add: labels_in_order_def)
next
  case (snoc ob obs)
  show ?case
  proof (cases "fst ob \<in> fst ` set obs")
    case True
    with snoc.prems have d: "labels_in_order obs = pre @ w # post"
      by (simp add: labels_in_order_snoc)
    then have "w \<in> fst ` set obs" "l \<in> fst ` set obs"
      using snoc.prems(2) set_labels_in_order [of obs] by auto
    with snoc.IH [OF d snoc.prems(2)] show ?thesis by (simp add: first_index_snoc)
  next
    case False
    with snoc.prems have e: "labels_in_order obs @ [fst ob] = pre @ w # post"
      by (simp add: labels_in_order_snoc)
    from snoc.prems(2) obtain post' where p: "post = post' @ [last post]"
      by (metis append_butlast_last_id empty_iff empty_set)
    with e have d: "labels_in_order obs = pre @ w # post'" and lst: "last post = fst ob"
      by (metis append.assoc append_Cons butlast_snoc, metis append_Cons append_assoc last_snoc)
    then have w: "w \<in> fst ` set obs"
      using set_labels_in_order [of obs] by auto
    show ?thesis
    proof (cases "l \<in> set post'")
      case True
      then have "l \<in> fst ` set obs" using d set_labels_in_order [of obs] by auto
      with snoc.IH [OF d True] w show ?thesis by (simp add: first_index_snoc)
    next
      case False
      with snoc.prems(2) p lst have "l = fst ob"
        by (metis Un_iff empty_iff empty_set set_ConsD set_append)
      with \<open>fst ob \<notin> fst ` set obs\<close> w first_index_less [OF w] show ?thesis
        by (simp add: first_index_snoc)
    qed
  qed
qed

text \<open>
  Claim C2, amended. For every non-empty list of emotion observations,
  \<open>getSmoothedEmotion\<close> returns a label of the list such that every other label either
  occurs less often, or occurs equally often with a lower average confidence, or ties
  in both and is first encountered later in the input. The average of a label is the
  one the code computes in double arithmetic: its confidences summed from 0 in input
  order and the sum divided by the count, every operation rounded. The returned
  confidence is \<open>Math.round\<close> of that average times 100, the product rounded to a
  double. The result is a function of the input sequence alone.
\<close>

theorem getSmoothedEmotion_double_winner:
  assumes "obs \<noteq> []"
  shows "\<exists>w. getSmoothedEmotion (map emotion_entry obs) =
            Some \<lparr>e_name = w,
                  e_score = Math_round (js_mul (double_average w obs) (Num 100))\<rparr>
     \<and> w \<in> fst ` set obs
     \<and> (\<forall>l\<in>fst ` set obs. l \<noteq> w \<longrightarrow>
          occurrences l obs < occurrences w obs
          \<or> (occurrences l obs = occurrences w obs
              \<and> js_gt (double_average w obs) (double_average l obs))
          \<or> (occurrences l obs = occurrences w obs
              \<and> double_average l obs = double_average w obs
              \<and> first_index w obs < first_index l obs))"
proof -
  let ?ls = "labels_in_order obs"
  let ?E = "\<lambda>l. (l, \<lparr>st_count = occurrences l obs, st_total = double_sum l obs\<rparr>)"
  have counter: "build_counter (map (\<lambda>e. (e_name e, e_score e)) (map emotion_entry obs)) =
      map ?E ?ls"
    using build_counter_tabulate [of obs]
    by (simp add: emotion_entry_def o_def label_stats_def)
  have cmp: "\<forall>l\<in>set ?ls. comparable (double_average l obs)"
    by (simp add: set_labels_in_order comparable_double_average)
  from emotion_best_fold [OF labels_in_order_nonempty [OF assms],
      of "\<lambda>l. double_sum l obs" "\<lambda>l. occurrences l obs"] cmp
  obtain pre w post where
    d: "?ls = pre @ w # post"
    and r: "foldl emotion_best (None, - 1, Num (- 1)) (map ?E ?ls) =
        (Some w, int (occurrences w obs), double_average w obs)"
    and pre: "\<forall>l\<in>set pre. occurrences l obs < occurrences w obs
          \<or> (occurrences l obs = occurrences w obs
              \<and> js_gt (double_average w obs) (double_average l obs))"
    and post: "\<forall>l\<in>set post. occurrences l obs < occurrences w obs
          \<or> (occurrences l obs = occurrences w obs
              \<and> \<not> js_gt (double_average l obs) (double_average w obs))"
    unfolding double_average_def by blast
  have res: "getSmoothedEmotion (map emotion_entry obs) =
            Some \<lparr>e_name = w,
                  e_score = Math_round (js_mul (double_average w obs) (Num 100))\<rparr>"
    using assms by (simp add: getSmoothedEmotion_def counter r del: map_map)
  have mem: "w \<in> fst ` set obs"
    using d set_labels_in_order [of obs] by auto
  have others: "occurrences l obs < occurrences w obs
          \<or> (occurrences l obs = occurrences w obs
              \<and> js_gt (double_average w obs) (double_average l obs))
          \<or> (occurrences l obs = occurrences w obs
              \<and> double_average l obs = double_average w obs
              \<and> first_index w obs < first_index l obs)"
    if l: "l \<in> fst ` set obs" and ne: "l \<noteq> w" for l
  proof -
    from l have "l \<in> set ?ls" by (simp add: set_labels_in_order)
    with d ne consider "l \<in> set pre" | "l \<in> set post" by auto
    then show ?thesis
    proof cases
      case 1
      with pre show ?thesis by blast
    next
      case 2
      from labels_in_order_first_index [OF d 2]
      have fi: "first_index w obs < first_index l obs" .
      from post 2 have "occurrences l obs < occurrences w obs
          \<or> (occurrences l obs = occurrences w obs
              \<and> \<not> js_gt (double_average l obs) (double_average w obs))" by blast
      moreover have "js_gt (double_average w obs) (double_average l obs)
          \<or> double_average w obs = double_average l obs
          \<or> js_gt (double_average l obs) (double_average w obs)"
        using js_gt_cases comparable_double_average l mem by blast
      ultimately show ?thesis using fi by auto
    qed
  qed
  from res mem others show ?thesis by blast
qed

theorem getSmoothedEmotion_double_winner_witness:
  "[(''happy'', 8106479329266893 / 2 ^ 53), (''happy'', 3602879701896397 / 2 ^ 52),
    (''sad'', 4278419646001971 / 2 ^ 52 :: real)] \<noteq> []
   \<and> getSmoothedEmotion
        [\<lparr>e_name = ''happy'', e_score = Num (8106479329266893 / 2 ^ 53)\<rparr>,
         \<lparr>e_name = ''happy'', e_score = Num (3602879701896397 / 2 ^ 52)\<rparr>,
         \<lparr>e_name = ''sad'', e_score = Num (4278419646001971 / 2 ^ 52)\<rparr>] =
       Some \<lparr>e_name = ''happy'', e_score = Num 85\<rparr>"
  using getSmoothedEmotion_double_winner
    [of "[(''happy'', 8106479329266893 / 2 ^ 53), (''happy'', 3602879701896397 / 2 ^ 52),
          (''sad'', 4278419646001971 / 2 ^ 52)]"]
  by (simp add: getSmoothedEmotion_def build_counter_def count_observation_def
      emotion_best_def double_eval)

lemma getSmoothedEmotion_count_tie:
  "getSmoothedEmotion
        [\<lparr>e_name = ''happy'', e_score = Num (1 / 2)\<rparr>,
         \<lparr>e_name = ''sad'', e_score = Num (8106479329266893 / 2 ^ 53)\<rparr>] =
       Some \<lparr>e_name = ''sad'', e_score = Num 90\<rparr>"
  by (simp add: getSmoothedEmotion_def build_counter_def count_observation_def
      emotion_best_def double_eval)

text \<open>
  With the exact average in place of the computed one the claim fails twice. For
  \<open>b 0.3, b 0.2, b 0.1, a 0.1, a 0.2, a 0.3\<close> the two labels tie in count and in
  exact average and \<open>b\<close> is encountered first, but the code returns \<open>a\<close>: the sums
  round differently in the two orders. For \<open>happy 0.35, happy 0.78\<close> the exact
  average times 100 rounds to 57, but the code returns 56.
\<close>

theorem getSmoothedEmotion_exact_average_counterexample:
  "getSmoothedEmotion
     [\<lparr>e_name = ''b'', e_score = Num (5404319552844595 / 2 ^ 54)\<rparr>,
      \<lparr>e_name = ''b'', e_score = Num (3602879701896397 / 2 ^ 54)\<rparr>,
      \<lparr>e_name = ''b'', e_score = Num (3602879701896397 / 2 ^ 55)\<rparr>,
      \<lparr>e_name = ''a'', e_score = Num (3602879701896397 / 2 ^ 55)\<rparr>,
      \<lparr>e_name = ''a'', e_score = Num (3602879701896397 / 2 ^ 54)\<rparr>,
      \<lparr>e_name = ''a'', e_score = Num (5404319552844595 / 2 ^ 54)\<rparr>] =
     Some \<lparr>e_name = ''a'', e_score = Num 20\<rparr>
   \<and> occurrences ''b''
        [(''b'', 5404319552844595 / 2 ^ 54), (''b'', 3602879701896397 / 2 ^ 54),
         (''b'', 3602879701896397 / 2 ^ 55), (''a'', 3602879701896397 / 2 ^ 55),
         (''a'', 3602879701896397 / 2 ^ 54), (''a'', 5404319552844595 / 2 ^ 54)] =
       occurrences ''a''
        [(''b'', 5404319552844595 / 2 ^ 54), (''b'', 3602879701896397 / 2 ^ 54),
         (''b'', 3602879701896397 / 2 ^ 55), (''a'', 3602879701896397 / 2 ^ 55),
         (''a'', 3602879701896397 / 2 ^ 54), (''a'', 5404319552844595 / 2 ^ 54)]
   \<and> average_confidence ''b''
        [(''b'', 5404319552844595 / 2 ^ 54), (''b'', 3602879701896397 / 2 ^ 54),
         (''b'', 3602879701896397 / 2 ^ 55), (''a'', 3602879701896397 / 2 ^ 55),
         (''a'', 3602879701896397 / 2 ^ 54), (''a'', 5404319552844595 / 2 ^ 54)] =
       average_confidence ''a''
        [(''b'', 5404319552844595 / 2 ^ 54), (''b'', 3602879701896397 / 2 ^ 54),
         (''b'', 3602879701896397 / 2 ^ 55), (''a'', 3602879701896397 / 2 ^ 55),
         (''a'', 3602879701896397 / 2 ^ 54), (''a'', 5404319552844595 / 2 ^ 54)]
   \<and> first_index ''b''
        [(''b'', 5404319552844595 / 2 ^ 54), (''b'', 3602879701896397 / 2 ^ 54),
         (''b'', 3602879701896397 / 2 ^ 55), (''a'', 3602879701896397 / 2 ^ 55),
         (''a'', 3602879701896397 / 2 ^ 54), (''a'', 5404319552844595 / 2 ^ 54)] <
       first_index ''a''
        [(''b'', 5404319552844595 / 2 ^ 54), (''b'', 3602879701896397 / 2 ^ 54),
         (''b'', 3602879701896397 / 2 ^ 55), (''a'', 3602879701896397 / 2 ^ 55),
         (''a'', 3602879701896397 / 2 ^ 54), (''a'', 5404319552844595 / 2 ^ 54)]
   \<and> getSmoothedEmotion
        [\<lparr>e_name = ''happy'', e_score = Num (3152519739159347 / 2 ^ 53)\<rparr>,
         \<lparr>e_name = ''happy'', e_score = Num (3512807709348987 / 2 ^ 52)\<rparr>] =
       Some \<lparr>e_name = ''happy'', e_score = Num 56\<rparr>
   \<and> round (average_confidence ''happy''
              [(''happy'', 3152519739159347 / 2 ^ 53), (''happy'', 3512807709348987 / 2 ^ 52)]
            * 100) = 57"
  by (simp add: getSmoothedEmotion_def build_counter_def count_observation_def
      emotion_best_def occurrences_def average_confidence_def confidence_sum_def
      first_index_def round_def double_eval)

text \<open>
  Claim C4, amended. For every non-empty list of gender observations,
  \<open>getSmoothedGender\<close> returns the label with the highest count, the first encountered
  among those of that count, whatever the confidences. The returned score is
  \<open>Math.round\<close> of the winner's average times 100, the average and the product
  computed in double arithmetic as for the emotions; for a winner that is the empty
  string, which the test \<open>bestGender ? ... : undefined\<close> takes as absent, the score is
  \<open>null\<close>.
\<close>

theorem getSmoothedGender_double_winner:
  assumes "obs \<noteq> []"
  shows "\<exists>w. getSmoothedGender (map gender_entry obs) =
            \<lparr>sg_gender = Some w,
             sg_score = (if w = [] then None
                         else Some (Math_round (js_mul (double_average w obs) (Num 100))))\<rparr>
     \<and> w \<in> fst ` set obs
     \<and> (\<forall>l\<in>fst ` set obs. l \<noteq> w \<longrightarrow>
          occurrences l obs < occurrences w obs
          \<or> (occurrences l obs = occurrences w obs
              \<and> first_index w obs < first_index l obs))"
proof -
  let ?ls = "labels_in_order obs"
  let ?E = "\<lambda>l. (l, \<lparr>st_count = occurrences l obs, st_total = double_sum l obs\<rparr>)"
  have counter: "build_counter (map (\<lambda>g. (g_gender g, g_score g)) (map gender_entry obs)) =
      map ?E ?ls"
    using build_counter_tabulate [of obs]
    by (simp add: gender_entry_def o_def label_stats_def)
  from gender_best_fold [OF labels_in_order_nonempty [OF assms],
      of "\<lambda>l. occurrences l obs" "\<lambda>l. double_sum l obs"]
  obtain pre w post where
    d: "?ls = pre @ w # post"
    and r: "foldl gender_best (None, - 1) (map ?E ?ls) = (Some w, int (occurrences w obs))"
    and pre: "\<forall>l\<in>set pre. occurrences l obs < occurrences w obs"
    and post: "\<forall>l\<in>set post. occurrences l obs \<le> occurrences w obs"
    by blast
  have wl: "w \<in> set ?ls" using d by simp
  have look: "map_of (map ?E ?ls) w =
      Some \<lparr>st_count = occurrences w obs, st_total = double_sum w obs\<rparr>"
    using wl by (simp add: map_of_tabulate)
  have res: "getSmoothedGender (map gender_entry obs) =
            \<lparr>sg_gender = Some w,
             sg_score = (if w = [] then None
                         else Some (Math_round (js_mul (double_average w obs) (Num 100))))\<rparr>"
    using assms
    by (simp add: getSmoothedGender_def counter r look double_average_def del: map_map)
  have mem: "w \<in> fst ` set obs"
    using wl by (simp add: set_labels_in_order)
  have others: "occurrences l obs < occurrences w obs
          \<or> (occurrences l obs = occurrences w obs
              \<and> first_index w obs < first_index l obs)"
    if l: "l \<in> fst ` set obs" and ne: "l \<noteq> w" for l
  proof -
    from l have "l \<in> set ?ls" by (simp add: set_labels_in_order)
    with d ne consider "l \<in> set pre" | "l \<in> set post" by auto
    then show ?thesis
    proof cases
      case 1
      with pre show ?thesis by blast
    next
      case 2
      from labels_in_order_first_index [OF d 2]
      have "first_index w obs < first_index l obs" .
      moreover from post 2 have "occurrences l obs \<le> occurrences w obs" by blast
      ultimately show ?thesis by linarith
    qed
  qed
  from res mem others show ?thesis by blast
qed

theorem getSmoothedGender_double_winner_witness:
  "[(''male'', 5404319552844595 / 2 ^ 53), (''female'', 8106479329266893 / 2 ^ 53),
    (''female'', 3152519739159347 / 2 ^ 52 :: real)] \<noteq> []
   \<and> getSmoothedGender
        [\<lparr>g_gender = ''male'', g_score = Num (5404319552844595 / 2 ^ 53)\<rparr>,
         \<lparr>g_gender = ''female'', g_score = Num (8106479329266893 / 2 ^ 53)\<rparr>,
         \<lparr>g_gender = ''female'', g_score = Num (3152519739159347 / 2 ^ 52)\<rparr>] =
       \<lparr>sg_gender = Some ''female'', sg_score = Some (Num 80)\<rparr>"
  using getSmoothedGender_double_winner
    [of "[(''male'', 5404319552844595 / 2 ^ 53), (''female'', 8106479329266893 / 2 ^ 53),
          (''female'', 3152519739159347 / 2 ^ 52)]"]
  by (simp add: getSmoothedGender_def build_counter_def count_observation_def
      gender_best_def double_eval)

text \<open>
  With the exact average, and for every label, the claim fails: for
  \<open>male 0.35, male 0.78\<close> the exact average
  times 100 rounds to 57, but the code returns 56; and for a single observation with
  the empty label the code returns that label with the score \<open>null\<close>.
\<close>

theorem getSmoothedGender_exact_average_counterexample:
  "getSmoothedGender
     [\<lparr>g_gender = ''male'', g_score = Num (3152519739159347 / 2 ^ 53)\<rparr>,
      \<lparr>g_gender = ''male'', g_score = Num (3512807709348987 / 2 ^ 52)\<rparr>] =
     \<lparr>sg_gender = Some ''male'', sg_score = Some (Num 56)\<rparr>
   \<and> round (average_confidence ''male''
              [(''male'', 3152519739159347 / 2 ^ 53), (''male'', 3512807709348987 / 2 ^ 52)]
            * 100) = 57
   \<and> getSmoothedGender [\<lparr>g_gender = [], g_score = Num (8106479329266893 / 2 ^ 53)\<rparr>] =
     \<lparr>sg_gender = Some [], sg_score = None\<rparr>"
  by (simp add: getSmoothedGender_def build_counter_def count_observation_def
      gender_best_def average_confidence_def confidence_sum_def occurrences_def
      round_def double_eval)

subsection \<open>The per-frame step\<close>

lemma topEmotion_Nil: "topEmotion [] = None"
  by (simp add: topEmotion_def)

lemma topEmotion_Cons:
  "topEmotion (c # cs) =
     (case topEmotion cs of
        None \<Rightarrow> Some c
      | Some t \<Rightarrow> if scoreOr0 t \<le> scoreOr0 c then Some c else Some t)"
  by (cases "sort_key (\<lambda>c. - scoreOr0 c) cs") (simp_all add: topEmotion_def)

lemma topEmotion_first_max:
  "cs \<noteq> [] \<Longrightarrow>
     \<exists>pre t post. cs = pre @ t # post \<and> topEmotion cs = Some t
       \<and> (\<forall>c\<in>set pre. scoreOr0 c < scoreOr0 t)
       \<and> (\<forall>c\<in>set post. scoreOr0 c \<le> scoreOr0 t)"
proof (induction cs)
  case Nil
  then show ?case by simp
next
  case (Cons c cs)
  show ?case
  proof (cases "cs = []")
    case True
    then have "topEmotion (c # cs) = Some c" by (simp add: topEmotion_Cons topEmotion_Nil)
    with True show ?thesis by fastforce
  next
    case False
    from Cons.IH [OF False] obtain pre t post where
      d: "cs = pre @ t # post" and t: "topEmotion cs = Some t"
      and pre: "\<forall>c\<in>set pre. scoreOr0 c < scoreOr0 t"
      and post: "\<forall>c\<in>set post. scoreOr0 c \<le> scoreOr0 t"
      by blast
    show ?thesis
    proof (cases "scoreOr0 t \<le> scoreOr0 c")
      case True
      with t have top: "topEmotion (c # cs) = Some c" by (simp add: topEmotion_Cons)
      have "\<forall>x\<in>set cs. scoreOr0 x \<le> scoreOr0 c"
        using d pre post True by fastforce
      then have "c # cs = [] @ c # cs \<and> topEmotion (c # cs) = Some c
           \<and> (\<forall>x\<in>set []. scoreOr0 x < scoreOr0 c) \<and> (\<forall>x\<in>set cs. scoreOr0 x \<le> scoreOr0 c)"
        using top by simp
      then show ?thesis by blast
    next
      case False
      with t have top: "topEmotion (c # cs) = Some t" by (simp add: topEmotion_Cons)
      have "c # cs = (c # pre) @ t # post \<and> topEmotion (c # cs) = Some t
           \<and> (\<forall>x\<in>set (c # pre). scoreOr0 x < scoreOr0 t) \<and> (\<forall>x\<in>set post. scoreOr0 x \<le> scoreOr0 t)"
        using d top pre post False by simp
      then show ?thesis by blast
    qed
  qed
qed

lemma detectionLoop_face:
  "detectionActive st \<Longrightarrow>
   detectionLoop config (Some (Human (Some (Result (Some (firstFace # others)))))) st =
     st\<lparr>historyBuffers := updateBuffers config firstFace (historyBuffers st),
        faceData := Some (displayRecord firstFace
                            (updateBuffers config firstFace (historyBuffers st)))\<rparr>"
  by (simp add: detectionLoop_def Let_def)

lemma detectionLoop_no_face:
  "detectionActive st \<Longrightarrow>
   r = None \<or> r = Some (Result None) \<or> r = Some (Result (Some [])) \<Longrightarrow>
   detectionLoop config (Some (Human r)) st = st\<lparr>faceData := None\<rparr>"
  by (auto simp: detectionLoop_def)

lemma updateGender_absent_score:
  "f_genderScore firstFace = None \<Longrightarrow> updateGender config firstFace buf = buf"
  by (simp add: updateGender_def split: option.splits)

lemma updateEmotion_absent_top_score:
  "f_emotion firstFace = Some cs \<Longrightarrow> topEmotion cs = Some t \<Longrightarrow> c_score t = Absent \<Longrightarrow>
   0 < minConfidence config \<Longrightarrow> updateEmotion config firstFace buf = buf"
  by (simp add: updateEmotion_def scoreOr0_def)

text \<open>
  Claim C3. In a frame with a detected face the emotion buffer receives at most one
  observation. Without a candidate list, or with an empty one, the buffer is unchanged.
  Otherwise the candidate considered is the one with the highest confidence
  (\<open>score ?? 0\<close>), the earliest such in the original list: every candidate before it
  is strictly lower, every candidate after it is not higher. It is pushed, with
  \<open>pushWithLimit\<close> and the window size, if and only if its confidence is at least
  \<open>minConfidence\<close>; otherwise the buffer is unchanged, and so is the smoothed
  emotion, which the display record takes from the buffer.
\<close>

theorem emotion_push_policy:
  assumes "detectionActive st"
  shows "hb_emotion (historyBuffers
           (detectionLoop config (Some (Human (Some (Result (Some (firstFace # others)))))) st)) =
         updateEmotion config firstFace (hb_emotion (historyBuffers st))
    \<and> map_option fd_emotion (faceData
           (detectionLoop config (Some (Human (Some (Result (Some (firstFace # others)))))) st)) =
         Some (getSmoothedEmotion (updateEmotion config firstFace (hb_emotion (historyBuffers st))))
    \<and> (f_emotion firstFace = None \<or> f_emotion firstFace = Some [] \<longrightarrow>
         updateEmotion config firstFace buf = buf)
    \<and> (\<forall>cs. f_emotion firstFace = Some cs \<and> cs \<noteq> [] \<longrightarrow>
         (\<exists>pre t post. cs = pre @ t # post
            \<and> (\<forall>c\<in>set pre. scoreOr0 c < scoreOr0 t)
            \<and> (\<forall>c\<in>set post. scoreOr0 c \<le> scoreOr0 t)
            \<and> updateEmotion config firstFace buf =
                (if minConfidence config \<le> scoreOr0 t
                 then pushWithLimit buf
                        \<lparr>e_name = c_emotion t, e_score = asNumber (c_score t)\<rparr>
                        (windowSize config)
                 else buf)))"
proof (intro conjI allI impI)
  show "hb_emotion (historyBuffers
           (detectionLoop config (Some (Human (Some (Result (Some (firstFace # others)))))) st)) =
         updateEmotion config firstFace (hb_emotion (historyBuffers st))"
    using assms by (simp add: detectionLoop_face updateBuffers_def)
next
  show "map_option fd_emotion (faceData
           (detectionLoop config (Some (Human (Some (Result (Some (firstFace # others)))))) st)) =
         Some (getSmoothedEmotion (updateEmotion config firstFace (hb_emotion (historyBuffers st))))"
    using assms by (simp add: detectionLoop_face updateBuffers_def displayRecord_def Let_def)
next
  assume "f_emotion firstFace = None \<or> f_emotion firstFace = Some []"
  then show "updateEmotion config firstFace buf = buf"
    by (auto simp: updateEmotion_def topEmotion_Nil)
next
  fix cs
  assume a: "f_emotion firstFace = Some cs \<and> cs \<noteq> []"
  then obtain pre t post where
    d: "cs = pre @ t # post" and t: "topEmotion cs = Some t"
    and pre: "\<forall>c\<in>set pre. scoreOr0 c < scoreOr0 t"
    and post: "\<forall>c\<in>set post. scoreOr0 c \<le> scoreOr0 t"
    using topEmotion_first_max [of cs] by blast
  from a t have "updateEmotion config firstFace buf =
                (if minConfidence config \<le> scoreOr0 t
                 then pushWithLimit buf
                        \<lparr>e_name = c_emotion t, e_score = asNumber (c_score t)\<rparr>
                        (windowSize config)
                 else buf)"
    by (simp add: updateEmotion_def)
  with d pre post show "\<exists>pre t post. cs = pre @ t # post
            \<and> (\<forall>c\<in>set pre. scoreOr0 c < scoreOr0 t)
            \<and> (\<forall>c\<in>set post. scoreOr0 c \<le> scoreOr0 t)
            \<and> updateEmotion config firstFace buf =
                (if minConfidence config \<le> scoreOr0 t
                 then pushWithLimit buf
                        \<lparr>e_name = c_emotion t, e_score = asNumber (c_score t)\<rparr>
                        (windowSize config)
                 else buf)"
    by blast
qed

theorem emotion_push_policy_witness:
  "detectionActive \<lparr>detectionActive = True, historyBuffers = createHistoryBuffers, faceData = None\<rparr>
   \<and> hb_emotion (historyBuffers
        (detectionLoop DEFAULT_CONFIG
          (Some (Human (Some (Result (Some
            [\<lparr>f_score = Some 1, f_faceScore = None, f_age = None, f_gender = None,
               f_genderScore = None,
               f_emotion = Some [\<lparr>c_emotion = ''sad'', c_score = Score (1 / 2)\<rparr>,
                                 \<lparr>c_emotion = ''happy'', c_score = Score (9 / 10)\<rparr>,
                                 \<lparr>c_emotion = ''angry'', c_score = Score (9 / 10)\<rparr>],
               f_distance = None, f_real = None, f_live = None, f_size = None\<rparr>])))))
          \<lparr>detectionActive = True, historyBuffers = createHistoryBuffers, faceData = None\<rparr>)) =
       [\<lparr>e_name = ''happy'', e_score = Num (9 / 10)\<rparr>]"
proof -
  let ?st = "\<lparr>detectionActive = True, historyBuffers = createHistoryBuffers, faceData = None\<rparr>"
  have h: "detectionActive ?st" by simp
  from emotion_push_policy [OF h, of DEFAULT_CONFIG _ "[]" "[]"] h show ?thesis
    by (simp add: updateEmotion_def topEmotion_def scoreOr0_def asNumber_def
        pushWithLimit_def DEFAULT_CONFIG_def createHistoryBuffers_def)
qed

text \<open>
  Claim C6. A frame without a detected face (no result, a result without a face array,
  or an empty face array) sets the display record to absent and leaves the three history
  buffers exactly as they were; a frame with a face that follows it updates the buffers
  accumulated before the gap, as if the gap had not occurred.
\<close>

theorem no_face_keeps_history:
  assumes "detectionActive st"
    and "r = None \<or> r = Some (Result None) \<or> r = Some (Result (Some []))"
  shows "detectionLoop config (Some (Human r)) st = st\<lparr>faceData := None\<rparr>
    \<and> faceData (detectionLoop config (Some (Human r)) st) = None
    \<and> historyBuffers (detectionLoop config (Some (Human r)) st) = historyBuffers st
    \<and> historyBuffers
        (detectionLoop config (Some (Human (Some (Result (Some (firstFace # others))))))
          (detectionLoop config (Some (Human r)) st)) =
      updateBuffers config firstFace (historyBuffers st)
    \<and> historyBuffers
        (detectionLoop config (Some (Human (Some (Result (Some (firstFace # others))))))
          (detectionLoop config (Some (Human r)) st)) =
      historyBuffers
        (detectionLoop config (Some (Human (Some (Result (Some (firstFace # others)))))) st)"
proof -
  have gap: "detectionLoop config (Some (Human r)) st = st\<lparr>faceData := None\<rparr>"
    using assms by (rule detectionLoop_no_face)
  have act: "detectionActive (st\<lparr>faceData := None\<rparr>)" using assms(1) by simp
  show ?thesis
    unfolding gap using assms(1) act by (simp add: detectionLoop_face)
qed

theorem no_face_keeps_history_witness:
  "detectionActive
     \<lparr>detectionActive = True,
      historyBuffers = \<lparr>hb_emotion = [\<lparr>e_name = ''happy'', e_score = Num (9 / 10)\<rparr>],
                        hb_gender = [], hb_age = [Num 30]\<rparr>,
      faceData = None\<rparr>
   \<and> historyBuffers
       (detectionLoop DEFAULT_CONFIG (Some (Human (Some (Result (Some [])))))
         \<lparr>detectionActive = True,
          historyBuffers = \<lparr>hb_emotion = [\<lparr>e_name = ''happy'', e_score = Num (9 / 10)\<rparr>],
                            hb_gender = [], hb_age = [Num 30]\<rparr>,
          faceData = None\<rparr>) =
     \<lparr>hb_emotion = [\<lparr>e_name = ''happy'', e_score = Num (9 / 10)\<rparr>],
      hb_gender = [], hb_age = [Num 30]\<rparr>"
proof -
  let ?st = "\<lparr>detectionActive = True,
      historyBuffers = \<lparr>hb_emotion = [\<lparr>e_name = ''happy'', e_score = Num (9 / 10)\<rparr>],
                        hb_gender = [], hb_age = [Num 30]\<rparr>,
      faceData = None\<rparr>"
  have h: "detectionActive ?st" by simp
  have r: "Some (Result (Some [])) = None \<or> Some (Result (Some [])) = Some (Result None)
           \<or> Some (Result (Some [])) = Some (Result (Some ([] :: Face list)))" by simp
  from no_face_keeps_history [OF h r, of DEFAULT_CONFIG] h show ?thesis by simp
qed

lemma undefined_score_smoothed:
  "getSmoothedEmotion [\<lparr>e_name = ''happy'', e_score = Undefined\<rparr>] =
     Some \<lparr>e_name = ''happy'', e_score = NaN\<rparr>"
  by (simp add: getSmoothedEmotion_def build_counter_def count_observation_def
      emotion_best_def double_eval)

lemma null_score_smoothed:
  "getSmoothedEmotion [\<lparr>e_name = ''happy'', e_score = Null\<rparr>] =
     Some \<lparr>e_name = ''happy'', e_score = Num 0\<rparr>"
  by (simp add: getSmoothedEmotion_def build_counter_def count_observation_def
      emotion_best_def double_eval)

text \<open>
  Claim C8 says that an observation whose confidence field is absent is never pushed.
  The gender path does so (\<open>updateGender_absent_score\<close>), and the emotion path does so
  while \<open>minConfidence\<close> is positive (\<open>updateEmotion_absent_top_score\<close>). With
  \<open>minConfidence = 0\<close> the test \<open>(top.score ?? 0) >= 0\<close> succeeds for a candidate
  without a score, and the emotion buffer receives an entry whose score is
  \<open>undefined\<close>; the smoothed confidence computed from such a buffer is \<open>NaN\<close>
  (\<open>undefined_score_smoothed\<close>). A \<open>null\<close> score is stored likewise and counts
  as 0 (\<open>null_score_smoothed\<close>).
\<close>

theorem absent_emotion_score_is_pushed:
  "hb_emotion (historyBuffers
     (detectionLoop \<lparr>windowSize = 1, minConfidence = 0\<rparr>
       (Some (Human (Some (Result (Some
         [\<lparr>f_score = Some 1, f_faceScore = None, f_age = None, f_gender = None,
            f_genderScore = None,
            f_emotion = Some [\<lparr>c_emotion = ''happy'', c_score = Absent\<rparr>],
            f_distance = None, f_real = None, f_live = None, f_size = None\<rparr>])))))
       \<lparr>detectionActive = True, historyBuffers = createHistoryBuffers, faceData = None\<rparr>)) =
   [\<lparr>e_name = ''happy'', e_score = Undefined\<rparr>]"
  by (simp add: detectionLoop_def Let_def updateBuffers_def updateEmotion_def topEmotion_def
      scoreOr0_def asNumber_def pushWithLimit_def createHistoryBuffers_def)

subsection \<open>The display-label table\<close>

lemma translateEmotionName_known:
  "translateEmotionName ''neutral'' = JSString zh_neutral
   \<and> translateEmotionName ''happy'' = JSString zh_happy
   \<and> translateEmotionName ''sad'' = JSString zh_sad
   \<and> translateEmotionName ''angry'' = JSString zh_angry
   \<and> translateEmotionName ''surprise'' = JSString zh_surprise
   \<and> translateEmotionName ''fear'' = JSString zh_fear
   \<and> translateEmotionName ''disgust'' = JSString zh_disgust
   \<and> translateEmotionName ''contempt'' = JSString zh_contempt"
  by (simp add: translateEmotionName_def emotion_map_def zh_neutral_def zh_happy_def
      zh_sad_def zh_angry_def zh_surprise_def zh_fear_def zh_disgust_def zh_contempt_def)

lemma translateEmotionName_unknown:
  "name \<notin> fst ` set emotion_map \<Longrightarrow> name \<notin> set Object_prototype_keys \<Longrightarrow>
   translateEmotionName name = JSString name"
proof -
  assume "name \<notin> fst ` set emotion_map" and k: "name \<notin> set Object_prototype_keys"
  then have "map_of emotion_map name = None" by (simp add: map_of_eq_None_iff)
  with k show ?thesis by (simp add: translateEmotionName_def)
qed

text \<open>
  Claim C9 says that the eight known labels map to their display strings
  (\<open>translateEmotionName_known\<close>) and that every other string is returned unchanged.
  The latter holds for the strings that are not property names of \<open>Object.prototype\<close>
  (\<open>translateEmotionName_unknown\<close>); for \<open>constructor\<close> the lookup \<open>map[name]\<close>
  finds the inherited member, which is truthy, and the function returns it instead of
  the input string.
\<close>

theorem translateEmotionName_constructor:
  "translateEmotionName ''constructor'' = ObjectPrototypeMember ''constructor''
   \<and> translateEmotionName ''constructor'' \<noteq> JSString ''constructor''"
  by (simp add: translateEmotionName_def emotion_map_def Object_prototype_keys_def)

end
